theory Spec2Isabelle
  imports Complex_Main "HOL-Library.AList"
begin

section \<open>The browser storage behind the cache\<close>

text \<open>
  \<^verbatim>\<open>src/utils/cacheManager.js\<close> keeps three entries in \<^verbatim>\<open>localStorage\<close>, named by
  \<^verbatim>\<open>CACHE_CONFIG\<close>. Every access may throw (storage blocked, quota exceeded), which the
  source guards with \<^verbatim>\<open>try/catch\<close>; the storage state therefore says, for each kind of
  access and each key, whether that access throws.
\<close>

datatype key = CACHE_KEY | LAST_UPDATE_KEY | OFFLINE_STATUS_KEY

datatype access = GetItem | SetItem | RemoveItem

datatype exn = StorageError | SyntaxError

datatype 'a outcome = Returned 'a | Thrown exn

text \<open>
  The object that \<^verbatim>\<open>saveRatesToCache\<close> serialises. A rate is a finite JavaScript
  number, written as the real it denotes; a clock reading is an integer count of
  milliseconds.
  \<open>rates\<close> is optional because the reader guards against its absence. A rate table
  is the list of the object's own properties, one pair for each currency code; a code is
  found among them with \<open>map_of\<close>. What \<^verbatim>\<open>cache.rates[code]\<close> reads when the
  object has no such property of its own is given with \<open>getCachedRate\<close> below.
\<close>

record snapshot =
  rates :: "(string \<times> real) list option"
  baseCurrency :: string
  timestamp :: int
  lastUpdate :: int

text \<open>
  A stored text is represented by what its only reader makes of it. The text under
  \<^verbatim>\<open>CACHE_KEY\<close> is read by \<^verbatim>\<open>JSON.parse\<close>: it is the empty string, a text that does
  not parse, the text \<^verbatim>\<open>null\<close>, or the serialisation of a snapshot object. The text
  under \<^verbatim>\<open>LAST_UPDATE_KEY\<close> is read by \<^verbatim>\<open>parseInt\<close>: it is the empty string, a text
  with no leading integer, or a text whose leading integer is \<open>n\<close>. The text under
  \<^verbatim>\<open>OFFLINE_STATUS_KEY\<close> is compared with \<^verbatim>\<open>'true'\<close> and is kept as a string.
\<close>

datatype cache_text = EmptyText | Unparsable | ParsedNull | Parsed snapshot

datatype stamp_text = EmptyStamp | NoDigits | Digits int

record storage =
  item_CACHE_KEY :: "cache_text option"
  item_LAST_UPDATE_KEY :: "stamp_text option"
  item_OFFLINE_STATUS_KEY :: "string option"
  throws :: "access \<Rightarrow> key \<Rightarrow> bool"

definition getItem_CACHE_KEY :: "storage \<Rightarrow> cache_text option outcome" where
  "getItem_CACHE_KEY st =
     (if throws st GetItem CACHE_KEY then Thrown StorageError
      else Returned (item_CACHE_KEY st))"

definition getItem_LAST_UPDATE_KEY :: "storage \<Rightarrow> stamp_text option outcome" where
  "getItem_LAST_UPDATE_KEY st =
     (if throws st GetItem LAST_UPDATE_KEY then Thrown StorageError
      else Returned (item_LAST_UPDATE_KEY st))"

definition getItem_OFFLINE_STATUS_KEY :: "storage \<Rightarrow> string option outcome" where
  "getItem_OFFLINE_STATUS_KEY st =
     (if throws st GetItem OFFLINE_STATUS_KEY then Thrown StorageError
      else Returned (item_OFFLINE_STATUS_KEY st))"

definition setItem_CACHE_KEY :: "cache_text \<Rightarrow> storage \<Rightarrow> unit outcome \<times> storage" where
  "setItem_CACHE_KEY v st =
     (if throws st SetItem CACHE_KEY then (Thrown StorageError, st)
      else (Returned (), st\<lparr>item_CACHE_KEY := Some v\<rparr>))"

definition setItem_LAST_UPDATE_KEY :: "stamp_text \<Rightarrow> storage \<Rightarrow> unit outcome \<times> storage" where
  "setItem_LAST_UPDATE_KEY v st =
     (if throws st SetItem LAST_UPDATE_KEY then (Thrown StorageError, st)
      else (Returned (), st\<lparr>item_LAST_UPDATE_KEY := Some v\<rparr>))"

definition setItem_OFFLINE_STATUS_KEY :: "string \<Rightarrow> storage \<Rightarrow> unit outcome \<times> storage" where
  "setItem_OFFLINE_STATUS_KEY v st =
     (if throws st SetItem OFFLINE_STATUS_KEY then (Thrown StorageError, st)
      else (Returned (), st\<lparr>item_OFFLINE_STATUS_KEY := Some v\<rparr>))"

definition removeItem :: "key \<Rightarrow> storage \<Rightarrow> unit outcome \<times> storage" where
  "removeItem k st =
     (if throws st RemoveItem k then (Thrown StorageError, st)
      else (Returned (),
            case k of
              CACHE_KEY \<Rightarrow> st\<lparr>item_CACHE_KEY := None\<rparr>
            | LAST_UPDATE_KEY \<Rightarrow> st\<lparr>item_LAST_UPDATE_KEY := None\<rparr>
            | OFFLINE_STATUS_KEY \<Rightarrow> st\<lparr>item_OFFLINE_STATUS_KEY := None\<rparr>))"

text \<open>Sequencing of statements that may throw, and \<^verbatim>\<open>try { ... } catch { ... }\<close>.\<close>

definition and_then ::
  "'a outcome \<times> storage \<Rightarrow> ('a \<Rightarrow> storage \<Rightarrow> 'b outcome \<times> storage) \<Rightarrow> 'b outcome \<times> storage" where
  "and_then r f = (case r of (Returned v, st) \<Rightarrow> f v st | (Thrown e, st) \<Rightarrow> (Thrown e, st))"

definition try_catch ::
  "'a outcome \<times> storage \<Rightarrow> (exn \<Rightarrow> storage \<Rightarrow> 'a outcome \<times> storage) \<Rightarrow> 'a outcome \<times> storage" where
  "try_catch r h = (case r of (Returned v, st) \<Rightarrow> (Returned v, st) | (Thrown e, st) \<Rightarrow> h e st)"

section \<open>CacheManager\<close>

definition CACHE_EXPIRY_HOURS :: int where
  "CACHE_EXPIRY_HOURS = 24"

definition maxAge :: int where
  "maxAge = CACHE_EXPIRY_HOURS * 60 * 60 * 1000"

text \<open>\<^verbatim>\<open>JSON.parse\<close> throws on a text that is not JSON, the empty string included.\<close>

definition JSON_parse :: "cache_text \<Rightarrow> snapshot option outcome" where
  "JSON_parse t =
     (case t of
        EmptyText \<Rightarrow> Thrown SyntaxError
      | Unparsable \<Rightarrow> Thrown SyntaxError
      | ParsedNull \<Rightarrow> Returned None
      | Parsed c \<Rightarrow> Returned (Some c))"

text \<open>\<^verbatim>\<open>parseInt\<close> gives \<^verbatim>\<open>NaN\<close> (\<open>None\<close>) on \<^verbatim>\<open>null\<close> and on a text with no leading integer.\<close>

definition parseInt :: "stamp_text option \<Rightarrow> int option" where
  "parseInt t = (case t of Some (Digits n) \<Rightarrow> Some n | _ \<Rightarrow> None)"

text \<open>
  \<^verbatim>\<open>(Date.now() - parseInt(lastUpdate)) > maxAge\<close>: a comparison with \<^verbatim>\<open>NaN\<close> is false.
\<close>

definition age_exceeds :: "int \<Rightarrow> int option \<Rightarrow> bool" where
  "age_exceeds now t = (case t of None \<Rightarrow> False | Some n \<Rightarrow> now - n > maxAge)"

text \<open>\<^verbatim>\<open>!cachedData\<close> and \<^verbatim>\<open>!lastUpdate\<close>: \<^verbatim>\<open>null\<close> and the empty string are falsy.\<close>

definition falsy_cache_text :: "cache_text option \<Rightarrow> bool" where
  "falsy_cache_text t = (case t of None \<Rightarrow> True | Some EmptyText \<Rightarrow> True | Some _ \<Rightarrow> False)"

definition falsy_stamp_text :: "stamp_text option \<Rightarrow> bool" where
  "falsy_stamp_text t = (case t of None \<Rightarrow> True | Some EmptyStamp \<Rightarrow> True | Some _ \<Rightarrow> False)"

text \<open>
  \<^verbatim>\<open>saveRatesToCache(ratesData, baseCurrency)\<close>. The three clock readings are those of
  \<^verbatim>\<open>timestamp: Date.now()\<close>, \<^verbatim>\<open>new Date().toISOString()\<close> and the later
  \<^verbatim>\<open>Date.now().toString()\<close>. What \<^verbatim>\<open>JSON.stringify\<close> writes is the text that
  \<^verbatim>\<open>JSON.parse\<close> reads back as the same object, and the text of a clock reading is the
  one \<^verbatim>\<open>parseInt\<close> reads back as that integer. Console output of the cache manager is
  not modelled.
\<close>

definition saveRatesToCache ::
  "(string \<times> real) list \<Rightarrow> string \<Rightarrow> int \<Rightarrow> int \<Rightarrow> int \<Rightarrow> storage \<Rightarrow> unit outcome \<times> storage" where
  "saveRatesToCache ratesData base t1 t2 t3 st =
     try_catch
       (let cacheData = \<lparr>rates = Some ratesData, baseCurrency = base,
                          timestamp = t1, lastUpdate = t2\<rparr>
        in and_then (setItem_CACHE_KEY (Parsed cacheData) st)
             (\<lambda>_ st1. setItem_LAST_UPDATE_KEY (Digits t3) st1))
       (\<lambda>error st'. (Returned (), st'))"

definition clearCache :: "storage \<Rightarrow> unit outcome \<times> storage" where
  "clearCache st =
     try_catch
       (and_then (removeItem CACHE_KEY st)
          (\<lambda>_ st1. and_then (removeItem LAST_UPDATE_KEY st1)
             (\<lambda>_ st2. removeItem OFFLINE_STATUS_KEY st2)))
       (\<lambda>error st'. (Returned (), st'))"

text \<open>
  \<^verbatim>\<open>getCachedRates()\<close> at clock reading \<open>now\<close>; \<open>None\<close> is the \<^verbatim>\<open>null\<close> result.
  The body of the \<^verbatim>\<open>try\<close> comes first, then the function with its \<^verbatim>\<open>catch\<close>.
\<close>

definition getCachedRates_try :: "int \<Rightarrow> storage \<Rightarrow> snapshot option outcome \<times> storage" where
  "getCachedRates_try now st =
     and_then (getItem_CACHE_KEY st, st) (\<lambda>cachedData st.
     and_then (getItem_LAST_UPDATE_KEY st, st) (\<lambda>lastUpdate st.
       if falsy_cache_text cachedData \<or> falsy_stamp_text lastUpdate then (Returned None, st)
       else
         and_then (case cachedData of Some t \<Rightarrow> JSON_parse t | None \<Rightarrow> Returned None, st)
           (\<lambda>cache st.
              if age_exceeds now (parseInt lastUpdate)
              then and_then (clearCache st) (\<lambda>_ st'. (Returned None, st'))
              else (Returned cache, st))))"

definition getCachedRates :: "int \<Rightarrow> storage \<Rightarrow> snapshot option outcome \<times> storage" where
  "getCachedRates now st =
     try_catch (getCachedRates_try now st) (\<lambda>error st'. (Returned None, st'))"

text \<open>
  \<^verbatim>\<open>cache.rates\<close> is an ordinary object, as \<^verbatim>\<open>JSON.parse\<close> builds it, so the
  lookup \<^verbatim>\<open>cache.rates[code]\<close> reads the object's own property of that name and,
  where it has none, the property that \<^verbatim>\<open>Object.prototype\<close> has under that name: a
  built-in function, or the prototype object itself for \<^verbatim>\<open>__proto__\<close>. A name that
  neither has reads as \<^verbatim>\<open>undefined\<close>.
\<close>

definition Object_prototype_properties :: "string list" where
  "Object_prototype_properties =
     [''constructor'', ''hasOwnProperty'', ''isPrototypeOf'', ''propertyIsEnumerable'',
      ''toLocaleString'', ''toString'', ''valueOf'', ''__proto__'',
      ''__defineGetter__'', ''__defineSetter__'', ''__lookupGetter__'', ''__lookupSetter__'']"

datatype jsvalue = Undefined | Number real | Inherited string

definition lookup :: "(string \<times> real) list \<Rightarrow> string \<Rightarrow> jsvalue" where
  "lookup r code =
     (case map_of r code of
        Some x \<Rightarrow> Number x
      | None \<Rightarrow> if code \<in> set Object_prototype_properties then Inherited code else Undefined)"

text \<open>
  A number is truthy unless it is zero, a function or an object always, \<^verbatim>\<open>undefined\<close>
  never.
\<close>

definition truthy :: "jsvalue \<Rightarrow> bool" where
  "truthy v = (case v of Undefined \<Rightarrow> False | Number x \<Rightarrow> x \<noteq> 0 | Inherited name \<Rightarrow> True)"

text \<open>
  What \<open>getCachedRate\<close> returns when it does not return \<^verbatim>\<open>null\<close> (\<open>None\<close>): the
  value of a lookup as it is, or the value of a division \<^verbatim>\<open>a / b\<close>. JavaScript divides
  in double precision, with rounding, with overflow to an infinity, and with
  \<^verbatim>\<open>NaN\<close> for an operand that is not a number; the quotient is therefore kept as the
  pair of its operands and is not computed.
\<close>

datatype rate = Entry jsvalue | Quotient jsvalue jsvalue

definition getCachedRate ::
  "string \<Rightarrow> string \<Rightarrow> int \<Rightarrow> storage \<Rightarrow> rate option outcome \<times> storage" where
  "getCachedRate fromCurrency toCurrency now st =
     and_then (getCachedRates now st) (\<lambda>cache st'.
       case cache of
         None \<Rightarrow> (Returned None, st')
       | Some c \<Rightarrow>
         (case rates c of
            None \<Rightarrow> (Returned None, st')
          | Some r \<Rightarrow>
              if baseCurrency c = fromCurrency \<and> truthy (lookup r toCurrency)
              then (Returned (Some (Entry (lookup r toCurrency))), st')
              else if baseCurrency c = toCurrency \<and> truthy (lookup r fromCurrency)
              then (Returned (Some (Quotient (Number 1) (lookup r fromCurrency))), st')
              else if truthy (lookup r fromCurrency) \<and> truthy (lookup r toCurrency)
              then (Returned (Some (Quotient (lookup r toCurrency) (lookup r fromCurrency))),
                    st')
              else (Returned None, st')))"

definition hasRate :: "string \<Rightarrow> string \<Rightarrow> int \<Rightarrow> storage \<Rightarrow> bool outcome \<times> storage" where
  "hasRate fromCurrency toCurrency now st =
     and_then (getCachedRate fromCurrency toCurrency now st)
       (\<lambda>rate st'. (Returned (rate \<noteq> None), st'))"

text \<open>
  \<^verbatim>\<open>getCacheInfo()\<close>. Its first statement reads \<^verbatim>\<open>LAST_UPDATE_KEY\<close> outside any
  \<^verbatim>\<open>try\<close>. \<open>now1\<close> is the clock reading inside \<^verbatim>\<open>getCachedRates\<close>, \<open>now2\<close> the one
  of the \<^verbatim>\<open>isExpired\<close> expression. \<^verbatim>\<open>toLocaleString\<close> of a date is represented by the
  instant it renders; an instant more than 8.64e15 milliseconds from the epoch is no date
  and renders as \<^verbatim>\<open>Invalid Date\<close>, as \<^verbatim>\<open>NaN\<close> does.
\<close>

datatype locale_string = InvalidDate | DateOf int

definition toLocaleString :: "int option \<Rightarrow> locale_string" where
  "toLocaleString t =
     (case t of
        None \<Rightarrow> InvalidDate
      | Some n \<Rightarrow> if \<bar>n\<bar> \<le> 8640000000000000 then DateOf n else InvalidDate)"

record cache_info =
  hasCache :: bool
  info_lastUpdate :: "locale_string option"
  info_baseCurrency :: "string option"
  rateCount :: nat
  isExpired :: bool

definition getCacheInfo :: "int \<Rightarrow> int \<Rightarrow> storage \<Rightarrow> cache_info outcome \<times> storage" where
  "getCacheInfo now1 now2 st =
     and_then (getItem_LAST_UPDATE_KEY st, st) (\<lambda>lastUpdate st.
     and_then (getCachedRates now1 st) (\<lambda>cache st'.
       (Returned
          \<lparr>hasCache = (case cache of None \<Rightarrow> False | Some c \<Rightarrow> True),
           info_lastUpdate =
             (if falsy_stamp_text lastUpdate then None
              else Some (toLocaleString (parseInt lastUpdate))),
           info_baseCurrency =
             (case cache of
                None \<Rightarrow> None
              | Some c \<Rightarrow> if baseCurrency c = [] then None else Some (baseCurrency c)),
           rateCount =
             (case cache of
                None \<Rightarrow> 0
              | Some c \<Rightarrow>
                  (case rates c of None \<Rightarrow> 0 | Some r \<Rightarrow> length (remdups (map fst r)))),
           isExpired =
             (case cache of
                None \<Rightarrow> True
              | Some c \<Rightarrow> age_exceeds now2 (parseInt lastUpdate))\<rparr>,
        st')))"

definition setOfflineStatus :: "bool \<Rightarrow> storage \<Rightarrow> unit outcome \<times> storage" where
  "setOfflineStatus isOffline st =
     try_catch
       (setItem_OFFLINE_STATUS_KEY (if isOffline then ''true'' else ''false'') st)
       (\<lambda>error st'. (Returned (), st'))"

definition getOfflineStatus :: "storage \<Rightarrow> bool outcome \<times> storage" where
  "getOfflineStatus st =
     try_catch
       (and_then (getItem_OFFLINE_STATUS_KEY st, st)
          (\<lambda>status st'. (Returned (status = Some ''true''), st')))
       (\<lambda>error st'. (Returned False, st'))"

section \<open>useNetworkStatus\<close>

text \<open>
  The hook of \<^verbatim>\<open>networkStatus.js\<close> holds two pieces of React state and reads and
  writes the persisted flag through \<^verbatim>\<open>CacheManager\<close>. Each handler is one transition
  of the hook's state. The lines a handler itself writes to the console are recorded,
  since they are the only trace some branches leave. A handler returns
  \<^verbatim>\<open>undefined\<close>, written \<open>()\<close>.
\<close>

record hook_state =
  isOnline :: bool
  isOfflineMode :: bool
  console :: "string list"
  localStorage :: storage

definition on_storage ::
  "(storage \<Rightarrow> 'a outcome \<times> storage) \<Rightarrow> hook_state \<Rightarrow> 'a outcome \<times> hook_state" where
  "on_storage f h = (case f (localStorage h) of (r, st') \<Rightarrow> (r, h\<lparr>localStorage := st'\<rparr>))"

definition console_log :: "string \<Rightarrow> hook_state \<Rightarrow> hook_state" where
  "console_log line h = h\<lparr>console := console h @ [line]\<rparr>"

text \<open>
  \<^verbatim>\<open>useState(navigator.onLine)\<close> and \<^verbatim>\<open>useState(CacheManager.getOfflineStatus())\<close>.
\<close>

definition useNetworkStatus :: "bool \<Rightarrow> storage \<Rightarrow> hook_state outcome \<times> storage" where
  "useNetworkStatus navigator_onLine st =
     and_then (getOfflineStatus st) (\<lambda>offline st'.
       (Returned \<lparr>isOnline = navigator_onLine, isOfflineMode = offline,
                   console = [], localStorage = st'\<rparr>, st'))"

definition handleOnline :: "hook_state \<Rightarrow> unit outcome \<times> hook_state" where
  "handleOnline h =
     (let h1 = console_log ''Network connection restored'' (h\<lparr>isOnline := True\<rparr>)
      in case on_storage getOfflineStatus h1 of
           (Thrown e, h2) \<Rightarrow> (Thrown e, h2)
         | (Returned offline, h2) \<Rightarrow>
             if \<not> offline then (Returned (), h2\<lparr>isOfflineMode := False\<rparr>)
             else (Returned (), h2))"

definition handleOffline :: "hook_state \<Rightarrow> unit outcome \<times> hook_state" where
  "handleOffline h =
     (let h1 = h\<lparr>isOnline := False, isOfflineMode := True\<rparr>
      in case on_storage (setOfflineStatus True) h1 of
           (Thrown e, h2) \<Rightarrow> (Thrown e, h2)
         | (Returned u, h2) \<Rightarrow>
             (Returned (),
              console_log ''Network connection lost - switching to offline mode'' h2))"

definition toggleOfflineMode :: "hook_state \<Rightarrow> unit outcome \<times> hook_state" where
  "toggleOfflineMode h =
     (let newOfflineMode = \<not> isOfflineMode h;
          h1 = h\<lparr>isOfflineMode := newOfflineMode\<rparr>
      in case on_storage (setOfflineStatus newOfflineMode) h1 of
           (Thrown e, h2) \<Rightarrow> (Thrown e, h2)
         | (Returned u, h2) \<Rightarrow>
             (Returned (),
              console_log
                (''Offline mode '' @ (if newOfflineMode then ''enabled'' else ''disabled'')
                   @ '' manually'') h2))"

definition exitOfflineMode :: "hook_state \<Rightarrow> unit outcome \<times> hook_state" where
  "exitOfflineMode h =
     (if isOnline h then
        (let h1 = h\<lparr>isOfflineMode := False\<rparr>
         in case on_storage (setOfflineStatus False) h1 of
              (Thrown e, h2) \<Rightarrow> (Thrown e, h2)
            | (Returned u, h2) \<Rightarrow> (Returned (), console_log ''Exited offline mode'' h2))
      else
        (Returned (), console_log ''Cannot exit offline mode - no network connection'' h))"

text \<open>
  The specification names three modes. The hook keeps two booleans; the mode they stand
  for is read off as the specification describes its initial state: offline mode with
  the network present is the manual one, offline mode without it the automatic one.
\<close>

datatype mode = Online | OfflineAuto | OfflineManual

definition mode_of :: "hook_state \<Rightarrow> mode" where
  "mode_of h =
     (if \<not> isOfflineMode h then Online
      else if isOnline h then OfflineManual else OfflineAuto)"

section \<open>Storage states used in the statements below\<close>

definition no_faults :: "access \<Rightarrow> key \<Rightarrow> bool" where
  "no_faults a k = False"

definition empty_storage :: storage where
  "empty_storage =
     \<lparr>item_CACHE_KEY = None, item_LAST_UPDATE_KEY = None,
      item_OFFLINE_STATUS_KEY = None, throws = no_faults\<rparr>"

text \<open>A storage every access to which throws, as when the browser blocks site data.\<close>

definition blocked_storage :: storage where
  "blocked_storage = empty_storage\<lparr>throws := (\<lambda>a k. True)\<rparr>"

text \<open>
  A table in the base USD with rates for INR and EUR, saved at time 0; both rates are
  numbers a double holds exactly.
\<close>

definition usd_rates :: "(string \<times> real) list" where
  "usd_rates = [(''INR'', 83), (''EUR'', 7 / 8)]"

definition usd_snapshot :: snapshot where
  "usd_snapshot = \<lparr>rates = Some usd_rates, baseCurrency = ''USD'', timestamp = 0, lastUpdate = 0\<rparr>"

definition usd_storage :: storage where
  "usd_storage = snd (saveRatesToCache usd_rates ''USD'' 0 0 0 empty_storage)"

text \<open>Tables with a zero and with a negative rate, saved at time 0.\<close>

definition zero_rate_snapshot :: snapshot where
  "zero_rate_snapshot =
     \<lparr>rates = Some [(''EUR'', 0)], baseCurrency = ''USD'', timestamp = 0, lastUpdate = 0\<rparr>"

definition negative_rate_snapshot :: snapshot where
  "negative_rate_snapshot =
     \<lparr>rates = Some [(''EUR'', - 1)], baseCurrency = ''USD'', timestamp = 0, lastUpdate = 0\<rparr>"

definition zero_rate_storage :: storage where
  "zero_rate_storage = snd (saveRatesToCache [(''EUR'', 0)] ''USD'' 0 0 0 empty_storage)"

definition negative_rate_storage :: storage where
  "negative_rate_storage =
     snd (saveRatesToCache [(''EUR'', - 1)] ''USD'' 0 0 0 empty_storage)"

text \<open>A saved table with the offline flag set, and the same with a snapshot text that does not parse.\<close>

definition flagged_storage :: storage where
  "flagged_storage = snd (setOfflineStatus True usd_storage)"

definition corrupt_storage :: storage where
  "corrupt_storage = flagged_storage\<lparr>item_CACHE_KEY := Some Unparsable\<rparr>"

text \<open>
  The saved table without its last-update entry, and the saved table with a last-update
  entry much later than the time recorded inside the snapshot.
\<close>

definition unstamped_storage :: storage where
  "unstamped_storage = usd_storage\<lparr>item_LAST_UPDATE_KEY := None\<rparr>"

definition restamped_storage :: storage where
  "restamped_storage = usd_storage\<lparr>item_LAST_UPDATE_KEY := Some (Digits 89999999)\<rparr>"

text \<open>The hook while online, not in offline mode, over an empty storage.\<close>

definition online_hook :: hook_state where
  "online_hook =
     \<lparr>isOnline = True, isOfflineMode = False, console = [], localStorage = empty_storage\<rparr>"

text \<open>The hook in offline mode with the flag persisted, the network being down.\<close>

definition disconnected_hook :: hook_state where
  "disconnected_hook = snd (handleOffline online_hook)"

text \<open>Conditions on a storage state that the statements below refer to.\<close>

definition reads_succeed :: "storage \<Rightarrow> bool" where
  "reads_succeed st =
     (\<not> throws st GetItem CACHE_KEY \<and> \<not> throws st GetItem LAST_UPDATE_KEY)"

definition removals_succeed :: "storage \<Rightarrow> bool" where
  "removals_succeed st =
     (\<not> throws st RemoveItem CACHE_KEY \<and> \<not> throws st RemoveItem LAST_UPDATE_KEY
      \<and> \<not> throws st RemoveItem OFFLINE_STATUS_KEY)"

text \<open>
  \<open>fresh_snapshot now st c\<close>: the snapshot \<open>c\<close> is stored and readable, and the
  last-update entry is there and not more than the expiry window before \<open>now\<close>.
\<close>

definition fresh_snapshot :: "int \<Rightarrow> storage \<Rightarrow> snapshot \<Rightarrow> bool" where
  "fresh_snapshot now st c =
     (reads_succeed st \<and> item_CACHE_KEY st = Some (Parsed c)
      \<and> \<not> falsy_stamp_text (item_LAST_UPDATE_KEY st)
      \<and> \<not> age_exceeds now (parseInt (item_LAST_UPDATE_KEY st)))"

text \<open>
  \<open>expired_snapshot now st\<close>: both entries are readable and not falsy, the snapshot
  text parses, and the last-update entry is more than the expiry window before \<open>now\<close>.
\<close>

definition expired_snapshot :: "int \<Rightarrow> storage \<Rightarrow> bool" where
  "expired_snapshot now st =
     (reads_succeed st
      \<and> (case item_CACHE_KEY st of
            Some ParsedNull \<Rightarrow> True | Some (Parsed c) \<Rightarrow> True | _ \<Rightarrow> False)
      \<and> \<not> falsy_stamp_text (item_LAST_UPDATE_KEY st)
      \<and> age_exceeds now (parseInt (item_LAST_UPDATE_KEY st)))"

text \<open>
  The inputs the specification speaks of: a currency code is a string of three upper-case
  letters, as every entry of the source's \<^verbatim>\<open>currencyCodes\<close> is, and in a valid
  snapshot every rate is strictly positive.
\<close>

definition upper_case :: "char \<Rightarrow> bool" where
  "upper_case ch = (ch \<in> set ''ABCDEFGHIJKLMNOPQRSTUVWXYZ'')"

definition currency_code :: "string \<Rightarrow> bool" where
  "currency_code code = (length code = 3 \<and> list_all upper_case code)"

definition positive_rates :: "(string \<times> real) list \<Rightarrow> bool" where
  "positive_rates r = list_all (\<lambda>entry. 0 < snd entry) r"

text \<open>
  The resolution order of the specification's \<open>getRate\<close>, in its words, over base
  currency \<open>B\<close> and rate table \<open>r\<close>: a code is a cached key when the table has an
  entry for it, and \<open>rate_of r code\<close> is that entry's rate.
\<close>

definition cached_key :: "(string \<times> real) list \<Rightarrow> string \<Rightarrow> bool" where
  "cached_key r code = (case map_of r code of None \<Rightarrow> False | Some x \<Rightarrow> True)"

definition rate_of :: "(string \<times> real) list \<Rightarrow> string \<Rightarrow> real" where
  "rate_of r code = (case map_of r code of None \<Rightarrow> 0 | Some x \<Rightarrow> x)"

definition getRate_spec ::
  "string \<Rightarrow> (string \<times> real) list \<Rightarrow> string \<Rightarrow> string \<Rightarrow> rate option" where
  "getRate_spec B r from to =
     (if from = B \<and> cached_key r to then Some (Entry (Number (rate_of r to)))
      else if to = B \<and> cached_key r from
      then Some (Quotient (Number 1) (Number (rate_of r from)))
      else if cached_key r from \<and> cached_key r to
      then Some (Quotient (Number (rate_of r to)) (Number (rate_of r from)))
      else None)"

section \<open>Facts about the storage operations\<close>

lemmas storage_defs =
  getItem_CACHE_KEY_def getItem_LAST_UPDATE_KEY_def getItem_OFFLINE_STATUS_KEY_def
  setItem_CACHE_KEY_def setItem_LAST_UPDATE_KEY_def setItem_OFFLINE_STATUS_KEY_def
  removeItem_def and_then_def try_catch_def

lemmas expiry_defs =
  falsy_cache_text_def falsy_stamp_text_def age_exceeds_def parseInt_def
  maxAge_def CACHE_EXPIRY_HOURS_def

lemmas hook_defs =
  handleOnline_def handleOffline_def toggleOfflineMode_def exitOfflineMode_def
  on_storage_def console_log_def mode_of_def setOfflineStatus_def getOfflineStatus_def
  setItem_OFFLINE_STATUS_KEY_def getItem_OFFLINE_STATUS_KEY_def and_then_def try_catch_def

text \<open>The example states, written out.\<close>

lemma usd_storage_eq:
  "usd_storage =
     \<lparr>item_CACHE_KEY = Some (Parsed usd_snapshot), item_LAST_UPDATE_KEY = Some (Digits 0),
      item_OFFLINE_STATUS_KEY = None, throws = no_faults\<rparr>"
  by (simp add: usd_storage_def usd_snapshot_def empty_storage_def saveRatesToCache_def
      storage_defs no_faults_def)

lemma zero_rate_storage_eq:
  "zero_rate_storage =
     \<lparr>item_CACHE_KEY = Some (Parsed zero_rate_snapshot), item_LAST_UPDATE_KEY = Some (Digits 0),
      item_OFFLINE_STATUS_KEY = None, throws = no_faults\<rparr>"
  by (simp add: zero_rate_storage_def zero_rate_snapshot_def empty_storage_def
      saveRatesToCache_def storage_defs no_faults_def)

lemma negative_rate_storage_eq:
  "negative_rate_storage =
     \<lparr>item_CACHE_KEY = Some (Parsed negative_rate_snapshot),
      item_LAST_UPDATE_KEY = Some (Digits 0),
      item_OFFLINE_STATUS_KEY = None, throws = no_faults\<rparr>"
  by (simp add: negative_rate_storage_def negative_rate_snapshot_def empty_storage_def
      saveRatesToCache_def storage_defs no_faults_def)

lemma flagged_storage_eq:
  "flagged_storage =
     \<lparr>item_CACHE_KEY = Some (Parsed usd_snapshot), item_LAST_UPDATE_KEY = Some (Digits 0),
      item_OFFLINE_STATUS_KEY = Some ''true'', throws = no_faults\<rparr>"
  by (simp add: flagged_storage_def usd_storage_eq setOfflineStatus_def storage_defs
      no_faults_def)

lemma corrupt_storage_eq:
  "corrupt_storage =
     \<lparr>item_CACHE_KEY = Some Unparsable, item_LAST_UPDATE_KEY = Some (Digits 0),
      item_OFFLINE_STATUS_KEY = Some ''true'', throws = no_faults\<rparr>"
  by (simp add: corrupt_storage_def flagged_storage_eq)

lemma disconnected_hook_eq:
  "disconnected_hook =
     \<lparr>isOnline = False, isOfflineMode = True,
      console = [''Network connection lost - switching to offline mode''],
      localStorage = empty_storage\<lparr>item_OFFLINE_STATUS_KEY := Some ''true''\<rparr>\<rparr>"
  by (simp add: disconnected_hook_def online_hook_def hook_defs empty_storage_def no_faults_def)

text \<open>No operation with a \<^verbatim>\<open>try/catch\<close> around its storage accesses throws.\<close>

lemma saveRatesToCache_returns: "fst (saveRatesToCache ratesData base t1 t2 t3 st) = Returned ()"
  by (simp add: saveRatesToCache_def storage_defs)

lemma clearCache_returns: "fst (clearCache st) = Returned ()"
  by (simp add: clearCache_def storage_defs)

lemma getCachedRates_returns: "\<exists>cache. fst (getCachedRates now st) = Returned cache"
  by (auto simp add: getCachedRates_def try_catch_def split: prod.splits outcome.splits)

lemma getCachedRate_returns: "\<exists>rate. fst (getCachedRate from to now st) = Returned rate"
proof -
  obtain cache where "fst (getCachedRates now st) = Returned cache"
    using getCachedRates_returns by blast
  then show ?thesis
    by (cases "getCachedRates now st")
      (auto simp add: getCachedRate_def and_then_def split: option.splits)
qed

lemma hasRate_returns: "\<exists>b. fst (hasRate from to now st) = Returned b"
proof -
  obtain rate where "fst (getCachedRate from to now st) = Returned rate"
    using getCachedRate_returns by blast
  then show ?thesis
    by (cases "getCachedRate from to now st") (simp add: hasRate_def and_then_def)
qed

lemma setOfflineStatus_returns: "fst (setOfflineStatus isOffline st) = Returned ()"
  by (simp add: setOfflineStatus_def storage_defs)

lemma getOfflineStatus_returns: "\<exists>b. getOfflineStatus st = (Returned b, st)"
  by (auto simp add: getOfflineStatus_def storage_defs)

text \<open>What \<open>clearCache\<close> and \<open>getCachedRates\<close> do to the storage, and what is read.\<close>

lemma clearCache_purges:
  "removals_succeed st \<Longrightarrow>
   snd (clearCache st) =
     st\<lparr>item_CACHE_KEY := None, item_LAST_UPDATE_KEY := None, item_OFFLINE_STATUS_KEY := None\<rparr>"
  by (simp add: clearCache_def storage_defs removals_succeed_def)

lemma getCachedRates_storage:
  "snd (getCachedRates now st) = (if expired_snapshot now st then snd (clearCache st) else st)"
  by (auto simp add: getCachedRates_def getCachedRates_try_def expired_snapshot_def
      reads_succeed_def getItem_CACHE_KEY_def getItem_LAST_UPDATE_KEY_def and_then_def
      try_catch_def JSON_parse_def falsy_cache_text_def falsy_stamp_text_def
      split: option.splits cache_text.splits stamp_text.splits prod.splits outcome.splits)

lemma getCachedRates_fresh:
  "fresh_snapshot now st c \<Longrightarrow> getCachedRates now st = (Returned (Some c), st)"
  by (auto simp add: getCachedRates_def getCachedRates_try_def fresh_snapshot_def
      reads_succeed_def getItem_CACHE_KEY_def getItem_LAST_UPDATE_KEY_def and_then_def
      try_catch_def JSON_parse_def falsy_cache_text_def falsy_stamp_text_def)

lemma getCachedRates_expired:
  "expired_snapshot now st \<Longrightarrow> getCachedRates now st = (Returned None, snd (clearCache st))"
  by (auto simp add: getCachedRates_def getCachedRates_try_def expired_snapshot_def
      reads_succeed_def getItem_CACHE_KEY_def getItem_LAST_UPDATE_KEY_def and_then_def
      try_catch_def JSON_parse_def falsy_cache_text_def falsy_stamp_text_def
      split: option.splits cache_text.splits stamp_text.splits prod.splits outcome.splits)

lemma getCachedRates_no_stamp:
  "item_LAST_UPDATE_KEY st = None \<Longrightarrow> getCachedRates now st = (Returned None, st)"
  by (simp add: getCachedRates_def getCachedRates_try_def getItem_CACHE_KEY_def
      getItem_LAST_UPDATE_KEY_def and_then_def try_catch_def falsy_stamp_text_def)

lemma getCachedRates_parsed:
  "item_CACHE_KEY st = Some (Parsed c) \<Longrightarrow>
   fst (getCachedRates now st) =
     (if reads_succeed st \<and> \<not> falsy_stamp_text (item_LAST_UPDATE_KEY st)
         \<and> \<not> age_exceeds now (parseInt (item_LAST_UPDATE_KEY st))
      then Returned (Some c) else Returned None)"
  by (auto simp add: getCachedRates_def getCachedRates_try_def reads_succeed_def
      getItem_CACHE_KEY_def getItem_LAST_UPDATE_KEY_def and_then_def try_catch_def
      JSON_parse_def falsy_cache_text_def clearCache_def removeItem_def)

lemma fst_getCachedRate:
  "fst (getCachedRates now st) = Returned cache \<Longrightarrow>
   fst (getCachedRate from to now st) =
     Returned (case cache of
         None \<Rightarrow> None
       | Some c \<Rightarrow>
         (case rates c of
            None \<Rightarrow> None
          | Some r \<Rightarrow>
              if baseCurrency c = from \<and> truthy (lookup r to)
              then Some (Entry (lookup r to))
              else if baseCurrency c = to \<and> truthy (lookup r from)
              then Some (Quotient (Number 1) (lookup r from))
              else if truthy (lookup r from) \<and> truthy (lookup r to)
              then Some (Quotient (lookup r to) (lookup r from))
              else None))"
  by (cases "getCachedRates now st")
    (auto simp add: getCachedRate_def and_then_def split: option.splits)

text \<open>The divisor of a division that \<open>getCachedRate\<close> makes is truthy.\<close>

lemma getCachedRate_divisor:
  "fst (getCachedRate from to now st) = Returned (Some (Quotient a b)) \<Longrightarrow> truthy b"
proof -
  assume q: "fst (getCachedRate from to now st) = Returned (Some (Quotient a b))"
  obtain cache where c: "fst (getCachedRates now st) = Returned cache"
    using getCachedRates_returns by blast
  from q show ?thesis
    unfolding fst_getCachedRate [OF c]
    by (auto split: option.splits if_splits)
qed

text \<open>
  No currency code is the name of a property of \<^verbatim>\<open>Object.prototype\<close>, so a lookup of
  a currency code reads the table's own entries only; and in a valid table every entry
  that is found is truthy.
\<close>

lemma currency_code_not_inherited:
  "currency_code code \<Longrightarrow> code \<notin> set Object_prototype_properties"
  by (auto simp add: currency_code_def Object_prototype_properties_def)

lemma lookup_currency_code:
  "currency_code code \<Longrightarrow>
   lookup r code = (case map_of r code of None \<Rightarrow> Undefined | Some x \<Rightarrow> Number x)"
  by (simp add: lookup_def currency_code_not_inherited split: option.splits)

lemma positive_rates_entry:
  "positive_rates r \<Longrightarrow> map_of r code = Some x \<Longrightarrow> 0 < x"
proof -
  assume p: "positive_rates r" and m: "map_of r code = Some x"
  from m have "(code, x) \<in> set r"
    by (rule map_of_SomeD)
  with p have "0 < snd (code, x)"
    unfolding positive_rates_def list_all_iff by blast
  then show ?thesis
    by simp
qed

lemma getCacheInfo_storage: "snd (getCacheInfo now1 now2 st) = snd (getCachedRates now1 st)"
proof (cases "throws st GetItem LAST_UPDATE_KEY")
  case True
  then have "\<not> expired_snapshot now1 st"
    by (simp add: expired_snapshot_def reads_succeed_def)
  with True show ?thesis
    by (simp add: getCachedRates_storage getCacheInfo_def getItem_LAST_UPDATE_KEY_def
        and_then_def)
next
  case False
  obtain cache where "fst (getCachedRates now1 st) = Returned cache"
    using getCachedRates_returns by blast
  with False show ?thesis
    by (cases "getCachedRates now1 st")
      (simp add: getCacheInfo_def getItem_LAST_UPDATE_KEY_def and_then_def)
qed

lemma getCacheInfo_hasCache:
  assumes "\<not> throws st GetItem LAST_UPDATE_KEY"
  shows "map_outcome hasCache (fst (getCacheInfo now1 now2 st)) =
           Returned (fst (getCachedRates now1 st) \<noteq> Returned None)"
proof -
  obtain cache where "fst (getCachedRates now1 st) = Returned cache"
    using getCachedRates_returns by blast
  with assms show ?thesis
    by (cases "getCachedRates now1 st")
      (auto simp add: getCacheInfo_def getItem_LAST_UPDATE_KEY_def and_then_def
        split: option.splits)
qed

lemma getCacheInfo_isExpired:
  assumes "\<not> throws st GetItem LAST_UPDATE_KEY"
  shows "map_outcome isExpired (fst (getCacheInfo now1 now2 st)) =
           Returned (fst (getCachedRates now1 st) = Returned None
                     \<or> age_exceeds now2 (parseInt (item_LAST_UPDATE_KEY st)))"
proof -
  obtain cache where "fst (getCachedRates now1 st) = Returned cache"
    using getCachedRates_returns by blast
  with assms show ?thesis
    by (cases "getCachedRates now1 st")
      (auto simp add: getCacheInfo_def getItem_LAST_UPDATE_KEY_def and_then_def
        split: option.splits)
qed

lemma usd_storage_fresh: "fresh_snapshot 1000 usd_storage usd_snapshot"
  by (simp add: usd_storage_eq fresh_snapshot_def reads_succeed_def expiry_defs no_faults_def)

lemma negative_rate_storage_fresh:
  "fresh_snapshot 1000 negative_rate_storage negative_rate_snapshot"
  by (simp add: negative_rate_storage_eq fresh_snapshot_def reads_succeed_def expiry_defs
      no_faults_def)

text \<open>
  The hook starts in the mode the persisted flag and the connectivity signal give, as the
  specification describes.
\<close>

lemma useNetworkStatus_initial_mode:
  "\<exists>h. fst (useNetworkStatus navigator_onLine st) = Returned h
       \<and> mode_of h =
           (if throws st GetItem OFFLINE_STATUS_KEY \<or> item_OFFLINE_STATUS_KEY st \<noteq> Some ''true''
            then Online
            else if navigator_onLine then OfflineManual else OfflineAuto)"
  by (auto simp add: useNetworkStatus_def getOfflineStatus_def getItem_OFFLINE_STATUS_KEY_def
      and_then_def try_catch_def mode_of_def)

section \<open>Rate resolution\<close>

text \<open>
  C1. For every stored, unexpired snapshot with base currency \<open>B\<close> (a valid one: every
  rate strictly positive), and currency codes \<open>from\<close> and \<open>to\<close>,
  \<open>getCachedRate from to\<close> leaves the storage as it is and resolves in this order,
  first match wins: if \<open>from = B\<close> and \<open>to\<close> is a cached key it returns \<open>r[to]\<close>;
  else if \<open>to = B\<close> and \<open>from\<close> is a cached key it returns \<open>1 / r[from]\<close>; else if
  both are cached keys it returns \<open>r[to] / r[from]\<close>; else it returns \<^verbatim>\<open>null\<close>.
\<close>

theorem getCachedRate_resolution:
  assumes "fresh_snapshot now st c" and "rates c = Some r" and "positive_rates r"
    and "currency_code from" and "currency_code to"
  shows "getCachedRate from to now st =
           (Returned (getRate_spec (baseCurrency c) r from to), st)"
proof -
  have t: "truthy (lookup r code) = cached_key r code" if "currency_code code" for code
    using that positive_rates_entry [OF assms(3), of code]
    by (auto simp add: lookup_currency_code truthy_def cached_key_def split: option.splits)
  have v: "cached_key r code \<Longrightarrow> lookup r code = Number (rate_of r code)"
    if "currency_code code" for code
    using that
    by (auto simp add: lookup_currency_code cached_key_def rate_of_def split: option.splits)
  from assms(1,2) show ?thesis
    by (simp add: getCachedRate_def getCachedRates_fresh and_then_def getRate_spec_def
        t [OF assms(4)] t [OF assms(5)] v [OF assms(4)] v [OF assms(5)])
qed

text \<open>
  With base USD, INR at 83 and EUR at 0.875: the direct, the inverse and the cross rate,
  and no rate for a code that is not in the table.
\<close>

theorem getCachedRate_resolution_witness:
  "fresh_snapshot 1000 usd_storage usd_snapshot \<and> rates usd_snapshot = Some usd_rates
   \<and> positive_rates usd_rates
   \<and> currency_code ''USD'' \<and> currency_code ''INR'' \<and> currency_code ''EUR''
   \<and> currency_code ''GBP''
   \<and> getCachedRate ''USD'' ''INR'' 1000 usd_storage
       = (Returned (Some (Entry (Number 83))), usd_storage)
   \<and> getCachedRate ''INR'' ''USD'' 1000 usd_storage
       = (Returned (Some (Quotient (Number 1) (Number 83))), usd_storage)
   \<and> getCachedRate ''EUR'' ''INR'' 1000 usd_storage
       = (Returned (Some (Quotient (Number 83) (Number (7 / 8)))), usd_storage)
   \<and> getCachedRate ''GBP'' ''INR'' 1000 usd_storage = (Returned None, usd_storage)"
proof -
  have f: "fresh_snapshot 1000 usd_storage usd_snapshot"
    by (rule usd_storage_fresh)
  have r: "rates usd_snapshot = Some usd_rates"
    by (simp add: usd_snapshot_def)
  have p: "positive_rates usd_rates"
    by (simp add: positive_rates_def usd_rates_def)
  have u: "currency_code ''USD''" and i: "currency_code ''INR''"
    and e: "currency_code ''EUR''" and g: "currency_code ''GBP''"
    by (simp_all add: currency_code_def upper_case_def)
  have b: "baseCurrency usd_snapshot = ''USD''"
    by (simp add: usd_snapshot_def)
  show ?thesis
    using f r p u i e g
      getCachedRate_resolution [OF f r p u i]
      getCachedRate_resolution [OF f r p i u]
      getCachedRate_resolution [OF f r p e i]
      getCachedRate_resolution [OF f r p g i]
    by (simp add: b getRate_spec_def cached_key_def rate_of_def usd_rates_def)
qed

text \<open>
  C9. For every stored, unexpired snapshot whose base currency is a currency code and whose
  rate table has no entry for it, \<open>getCachedRate\<close> from the base currency to the base
  currency returns \<^verbatim>\<open>null\<close>: no case of the resolution matches.
\<close>

theorem getCachedRate_base_to_base_absent:
  assumes "fresh_snapshot now st c" and "rates c = Some r"
    and "currency_code (baseCurrency c)" and "map_of r (baseCurrency c) = None"
  shows "getCachedRate (baseCurrency c) (baseCurrency c) now st = (Returned None, st)"
  using assms
  by (simp add: getCachedRate_def getCachedRates_fresh and_then_def lookup_currency_code
      truthy_def)

theorem getCachedRate_base_to_base_absent_witness:
  "fresh_snapshot 1000 usd_storage usd_snapshot \<and> rates usd_snapshot = Some usd_rates
   \<and> currency_code (baseCurrency usd_snapshot)
   \<and> map_of usd_rates (baseCurrency usd_snapshot) = None
   \<and> getCachedRate ''USD'' ''USD'' 1000 usd_storage = (Returned None, usd_storage)"
proof -
  have f: "fresh_snapshot 1000 usd_storage usd_snapshot"
    by (rule usd_storage_fresh)
  have r: "rates usd_snapshot = Some usd_rates"
    by (simp add: usd_snapshot_def)
  have k: "currency_code (baseCurrency usd_snapshot)"
    by (simp add: usd_snapshot_def currency_code_def upper_case_def)
  have m: "map_of usd_rates (baseCurrency usd_snapshot) = None"
    by (simp add: usd_snapshot_def usd_rates_def)
  have b: "baseCurrency usd_snapshot = ''USD''"
    by (simp add: usd_snapshot_def)
  show ?thesis
    using f r k m getCachedRate_base_to_base_absent [OF f r k m] by (simp add: b)
qed

text \<open>
  C7, as amended. \<open>saveRatesToCache\<close> stores the rate table as it is given, without
  validating it. On reading, a rate of zero for a currency code is treated as no rate:
  \<open>getCachedRate\<close> resolves exactly as if the code had no entry. A negative rate is
  neither rejected nor treated as no rate: from the base currency it is returned as the
  rate, and to the base currency it is the divisor of the inverse. No division by a
  zero-valued cached rate occurs: the divisor of a quotient that \<open>getCachedRate\<close>
  returns is never zero.
\<close>

theorem zero_rate_reads_as_no_rate:
  "fst (getCachedRate from to now st) \<noteq> Returned (Some (Quotient a (Number 0)))
   \<and> (item_CACHE_KEY st = Some (Parsed c) \<and> rates c = Some r \<and> currency_code code
        \<and> map_of r code = Some 0 \<longrightarrow>
        fst (getCachedRate from to now
               (st\<lparr>item_CACHE_KEY := Some (Parsed (c\<lparr>rates := Some (AList.delete code r)\<rparr>))\<rparr>))
          = fst (getCachedRate from to now st))
   \<and> (fresh_snapshot now st c \<and> rates c = Some r \<and> baseCurrency c = from
        \<and> map_of r to = Some x \<and> x < 0 \<longrightarrow>
        getCachedRate from to now st = (Returned (Some (Entry (Number x))), st))
   \<and> (fresh_snapshot now st c \<and> rates c = Some r \<and> baseCurrency c = to \<and> from \<noteq> to
        \<and> map_of r from = Some x \<and> x < 0 \<longrightarrow>
        getCachedRate from to now st
          = (Returned (Some (Quotient (Number 1) (Number x))), st))
   \<and> (\<not> throws st SetItem CACHE_KEY \<longrightarrow>
        item_CACHE_KEY (snd (saveRatesToCache ratesData base t1 t2 t3 st)) =
          Some (Parsed \<lparr>rates = Some ratesData, baseCurrency = base,
                         timestamp = t1, lastUpdate = t2\<rparr>))"
proof -
  have divisor: "fst (getCachedRate from to now st) \<noteq> Returned (Some (Quotient a (Number 0)))"
    using getCachedRate_divisor [of "from" "to" now st a "Number 0"] by (auto simp add: truthy_def)
  have zero: "fst (getCachedRate from to now
               (st\<lparr>item_CACHE_KEY := Some (Parsed (c\<lparr>rates := Some (AList.delete code r)\<rparr>))\<rparr>))
          = fst (getCachedRate from to now st)"
    if a: "item_CACHE_KEY st = Some (Parsed c)" and b: "rates c = Some r"
      and k: "currency_code code" and z: "map_of r code = Some 0"
  proof -
    let ?c' = "c\<lparr>rates := Some (AList.delete code r)\<rparr>"
    let ?st' = "st\<lparr>item_CACHE_KEY := Some (Parsed ?c')\<rparr>"
    have n: "code \<notin> set Object_prototype_properties"
      using k by (rule currency_code_not_inherited)
    have l: "truthy (lookup (AList.delete code r) k) = truthy (lookup r k)" for k
      using z n by (simp add: lookup_def delete_conv truthy_def)
    have v: "truthy (lookup r k) \<Longrightarrow> lookup (AList.delete code r) k = lookup r k" for k
      using z n by (auto simp add: lookup_def delete_conv truthy_def)
    show ?thesis
    proof (cases "reads_succeed st \<and> \<not> falsy_stamp_text (item_LAST_UPDATE_KEY st)
                   \<and> \<not> age_exceeds now (parseInt (item_LAST_UPDATE_KEY st))")
      case True
      then have "fst (getCachedRates now st) = Returned (Some c)"
        using a by (simp add: getCachedRates_parsed)
      moreover from True have "fst (getCachedRates now ?st') = Returned (Some ?c')"
        by (simp add: getCachedRates_parsed reads_succeed_def)
      ultimately show ?thesis
        using b by (simp add: fst_getCachedRate l v)
    next
      case False
      then have "fst (getCachedRates now st) = Returned None"
        using a by (simp add: getCachedRates_parsed)
      moreover from False have "fst (getCachedRates now ?st') = Returned None"
        by (simp add: getCachedRates_parsed reads_succeed_def)
      ultimately show ?thesis
        by (simp add: fst_getCachedRate)
    qed
  qed
  have direct: "getCachedRate from to now st = (Returned (Some (Entry (Number x))), st)"
    if "fresh_snapshot now st c" and "rates c = Some r" and "baseCurrency c = from"
      and "map_of r to = Some x" and "x < 0"
    using that
    by (simp add: getCachedRate_def getCachedRates_fresh and_then_def lookup_def truthy_def)
  have inverse: "getCachedRate from to now st
                   = (Returned (Some (Quotient (Number 1) (Number x))), st)"
    if "fresh_snapshot now st c" and "rates c = Some r" and "baseCurrency c = to"
      and "from \<noteq> to" and "map_of r from = Some x" and "x < 0"
    using that
    by (simp add: getCachedRate_def getCachedRates_fresh and_then_def lookup_def truthy_def)
  have save: "item_CACHE_KEY (snd (saveRatesToCache ratesData base t1 t2 t3 st)) =
          Some (Parsed \<lparr>rates = Some ratesData, baseCurrency = base,
                         timestamp = t1, lastUpdate = t2\<rparr>)"
    if "\<not> throws st SetItem CACHE_KEY"
    using that by (simp add: saveRatesToCache_def storage_defs Let_def)
  from divisor zero direct inverse save show ?thesis
    by blast
qed

text \<open>
  A table with EUR at zero is stored as given, and reading EUR from it gives what the
  empty table gives; a table with EUR at -1 gives -1 from the base USD to EUR, and the
  inverse of -1 from EUR to USD.
\<close>

theorem zero_rate_reads_as_no_rate_witness:
  "item_CACHE_KEY zero_rate_storage = Some (Parsed zero_rate_snapshot)
   \<and> rates zero_rate_snapshot = Some [(''EUR'', 0)]
   \<and> currency_code ''EUR''
   \<and> map_of [(''EUR'', 0 :: real)] ''EUR'' = Some 0
   \<and> fst (getCachedRate ''USD'' ''EUR'' 1000
            (zero_rate_storage\<lparr>item_CACHE_KEY :=
               Some (Parsed (zero_rate_snapshot\<lparr>rates := Some []\<rparr>))\<rparr>))
        = fst (getCachedRate ''USD'' ''EUR'' 1000 zero_rate_storage)
   \<and> fresh_snapshot 1000 negative_rate_storage negative_rate_snapshot
   \<and> rates negative_rate_snapshot = Some [(''EUR'', - 1)]
   \<and> baseCurrency negative_rate_snapshot = ''USD''
   \<and> map_of [(''EUR'', - 1 :: real)] ''EUR'' = Some (- 1) \<and> (- 1 :: real) < 0
   \<and> getCachedRate ''USD'' ''EUR'' 1000 negative_rate_storage
        = (Returned (Some (Entry (Number (- 1)))), negative_rate_storage)
   \<and> getCachedRate ''EUR'' ''USD'' 1000 negative_rate_storage
        = (Returned (Some (Quotient (Number 1) (Number (- 1)))), negative_rate_storage)
   \<and> \<not> throws empty_storage SetItem CACHE_KEY
   \<and> item_CACHE_KEY (snd (saveRatesToCache [(''EUR'', 0)] ''USD'' 0 0 0 empty_storage))
        = Some (Parsed zero_rate_snapshot)"
proof -
  have a: "item_CACHE_KEY zero_rate_storage = Some (Parsed zero_rate_snapshot)"
    by (simp add: zero_rate_storage_eq)
  have b: "rates zero_rate_snapshot = Some [(''EUR'', 0)]"
    by (simp add: zero_rate_snapshot_def)
  have k: "currency_code ''EUR''"
    by (simp add: currency_code_def upper_case_def)
  have c: "map_of [(''EUR'', 0 :: real)] ''EUR'' = Some 0"
    by simp
  have d: "\<not> throws empty_storage SetItem CACHE_KEY"
    by (simp add: empty_storage_def no_faults_def)
  have e: "AList.delete ''EUR'' [(''EUR'', 0 :: real)] = []"
    by simp
  have f: "fresh_snapshot 1000 negative_rate_storage negative_rate_snapshot"
    by (rule negative_rate_storage_fresh)
  have g: "rates negative_rate_snapshot = Some [(''EUR'', - 1)]"
    and h: "baseCurrency negative_rate_snapshot = ''USD''"
    by (simp_all add: negative_rate_snapshot_def)
  have m: "map_of [(''EUR'', - 1 :: real)] ''EUR'' = Some (- 1)" and n: "(- 1 :: real) < 0"
    by simp_all
  have o: "''EUR'' \<noteq> ''USD''"
    by simp
  note t1 = zero_rate_reads_as_no_rate
    [of "''USD''" "''EUR''" 1000 zero_rate_storage _ zero_rate_snapshot "[(''EUR'', 0)]" "''EUR''"]
  note t2 = zero_rate_reads_as_no_rate
    [of "''USD''" "''EUR''" 1000 negative_rate_storage _ negative_rate_snapshot
        "[(''EUR'', - 1)]" _ "- 1"]
  note t3 = zero_rate_reads_as_no_rate
    [of "''EUR''" "''USD''" 1000 negative_rate_storage _ negative_rate_snapshot
        "[(''EUR'', - 1)]" _ "- 1"]
  note t4 = zero_rate_reads_as_no_rate
    [of _ _ _ empty_storage _ _ _ _ _ "[(''EUR'', 0)]" "''USD''" 0 0 0]
  from t1 a b k c have p: "fst (getCachedRate ''USD'' ''EUR'' 1000
            (zero_rate_storage\<lparr>item_CACHE_KEY :=
               Some (Parsed (zero_rate_snapshot\<lparr>rates := Some []\<rparr>))\<rparr>))
        = fst (getCachedRate ''USD'' ''EUR'' 1000 zero_rate_storage)"
    by (simp add: e)
  from t2 f g h m n have q: "getCachedRate ''USD'' ''EUR'' 1000 negative_rate_storage
        = (Returned (Some (Entry (Number (- 1)))), negative_rate_storage)"
    by blast
  from t3 f g h m n o have s: "getCachedRate ''EUR'' ''USD'' 1000 negative_rate_storage
        = (Returned (Some (Quotient (Number 1) (Number (- 1)))), negative_rate_storage)"
    by blast
  from t4 d have w: "item_CACHE_KEY (snd (saveRatesToCache [(''EUR'', 0)] ''USD'' 0 0 0 empty_storage))
        = Some (Parsed zero_rate_snapshot)"
    by (simp add: zero_rate_snapshot_def)
  from a b k c d f g h m n p q s w show ?thesis
    by blast
qed

text \<open>
  C7 as stated fails for a negative rate: the table \<open>EUR \<mapsto> -1\<close> is stored by
  \<open>saveRatesToCache\<close> as given, and \<open>getCachedRate\<close> from the base USD to EUR
  returns the rate -1.
\<close>

theorem negative_rate_counterexample:
  "item_CACHE_KEY (snd (saveRatesToCache [(''EUR'', - 1)] ''USD'' 0 0 0 empty_storage))
     = Some (Parsed negative_rate_snapshot)
   \<and> negative_rate_storage = snd (saveRatesToCache [(''EUR'', - 1)] ''USD'' 0 0 0 empty_storage)
   \<and> rates negative_rate_snapshot = Some [(''EUR'', - 1)]
   \<and> fst (getCachedRate ''USD'' ''EUR'' 1000 negative_rate_storage)
       = Returned (Some (Entry (Number (- 1))))"
proof -
  have "getCachedRates 1000 negative_rate_storage
               = (Returned (Some negative_rate_snapshot), negative_rate_storage)"
    by (rule getCachedRates_fresh [OF negative_rate_storage_fresh])
  then have "fst (getCachedRate ''USD'' ''EUR'' 1000 negative_rate_storage)
               = Returned (Some (Entry (Number (- 1))))"
    by (simp add: getCachedRate_def and_then_def negative_rate_snapshot_def lookup_def
        truthy_def)
  moreover have "item_CACHE_KEY negative_rate_storage = Some (Parsed negative_rate_snapshot)"
    by (simp add: negative_rate_storage_eq)
  ultimately show ?thesis
    by (simp add: negative_rate_storage_def negative_rate_snapshot_def)
qed

text \<open>
  Outside the currency codes the lookup reaches \<^verbatim>\<open>Object.prototype\<close>: asked for the
  rate from the base to \<^verbatim>\<open>toString\<close>, \<open>getCachedRate\<close> returns the inherited
  function, and \<open>hasRate\<close> says there is a rate.
\<close>

lemma getCachedRate_inherited_property:
  "fst (getCachedRate ''USD'' ''toString'' 1000 usd_storage)
     = Returned (Some (Entry (Inherited ''toString'')))
   \<and> fst (hasRate ''USD'' ''toString'' 1000 usd_storage) = Returned True"
proof -
  have "getCachedRates 1000 usd_storage = (Returned (Some usd_snapshot), usd_storage)"
    by (rule getCachedRates_fresh [OF usd_storage_fresh])
  then show ?thesis
    by (simp add: hasRate_def getCachedRate_def and_then_def usd_snapshot_def usd_rates_def
        lookup_def truthy_def Object_prototype_properties_def)
qed

section \<open>Expiry and purge\<close>

text \<open>
  C10. \<open>getCachedRates\<close> returns \<^verbatim>\<open>null\<close> whenever the last-update entry is missing,
  whatever is stored under the snapshot key; and where a snapshot is stored and the reads
  succeed, whether it is returned depends on the last-update entry alone (present, not
  empty, and not more than the expiry window old), not on the time recorded inside the
  snapshot.
\<close>

theorem getCachedRates_last_update_key_decides:
  "(item_LAST_UPDATE_KEY st = None \<longrightarrow> getCachedRates now st = (Returned None, st))
   \<and> (reads_succeed st \<and> item_CACHE_KEY st = Some (Parsed c) \<longrightarrow>
        fst (getCachedRates now st) =
          (if falsy_stamp_text (item_LAST_UPDATE_KEY st)
              \<or> age_exceeds now (parseInt (item_LAST_UPDATE_KEY st))
           then Returned None else Returned (Some c)))"
  by (auto simp add: getCachedRates_def getCachedRates_try_def reads_succeed_def
      getItem_CACHE_KEY_def getItem_LAST_UPDATE_KEY_def and_then_def try_catch_def
      JSON_parse_def falsy_cache_text_def falsy_stamp_text_def clearCache_def removeItem_def
      split: option.splits stamp_text.splits)

text \<open>
  A stored snapshot without the last-update entry reads as absent; a snapshot whose own
  timestamp is more than 24 hours old is still returned when the last-update entry is recent.
\<close>

theorem getCachedRates_last_update_key_decides_witness:
  "item_LAST_UPDATE_KEY unstamped_storage = None
   \<and> item_CACHE_KEY unstamped_storage = Some (Parsed usd_snapshot)
   \<and> getCachedRates 1000 unstamped_storage = (Returned None, unstamped_storage)
   \<and> reads_succeed restamped_storage
   \<and> item_CACHE_KEY restamped_storage = Some (Parsed usd_snapshot)
   \<and> 90000000 - timestamp usd_snapshot > maxAge
   \<and> fst (getCachedRates 90000000 restamped_storage) = Returned (Some usd_snapshot)"
proof -
  have a: "item_LAST_UPDATE_KEY unstamped_storage = None"
    by (simp add: unstamped_storage_def)
  have b: "item_CACHE_KEY unstamped_storage = Some (Parsed usd_snapshot)"
    by (simp add: unstamped_storage_def usd_storage_eq)
  have c: "reads_succeed restamped_storage
           \<and> item_CACHE_KEY restamped_storage = Some (Parsed usd_snapshot)"
    by (simp add: restamped_storage_def usd_storage_eq reads_succeed_def no_faults_def)
  have d: "90000000 - timestamp usd_snapshot > maxAge"
    by (simp add: usd_snapshot_def maxAge_def CACHE_EXPIRY_HOURS_def)
  have e: "\<not> (falsy_stamp_text (item_LAST_UPDATE_KEY restamped_storage)
              \<or> age_exceeds 90000000 (parseInt (item_LAST_UPDATE_KEY restamped_storage)))"
    by (simp add: restamped_storage_def expiry_defs)
  show ?thesis
    using a b c d e
      getCachedRates_last_update_key_decides [of unstamped_storage 1000 usd_snapshot]
      getCachedRates_last_update_key_decides [of restamped_storage 90000000 usd_snapshot]
    by simp
qed

text \<open>
  C4. For every snapshot stored more than 24 hours ago, on a storage whose reads and
  removals succeed, \<open>getCachedRates\<close> returns \<^verbatim>\<open>null\<close> and purges all three entries,
  the snapshot, the last-update time and the offline flag; and a later \<open>getCacheInfo\<close>
  reports that there is no cache.
\<close>

theorem getCachedRates_expired_purges:
  assumes "reads_succeed st" and "removals_succeed st"
    and "item_CACHE_KEY st = Some (Parsed c)"
    and "item_LAST_UPDATE_KEY st = Some (Digits t)"
    and "now - t > 24 * 60 * 60 * 1000"
  shows "getCachedRates now st =
           (Returned None,
            st\<lparr>item_CACHE_KEY := None, item_LAST_UPDATE_KEY := None,
               item_OFFLINE_STATUS_KEY := None\<rparr>)
         \<and> map_outcome hasCache (fst (getCacheInfo later1 later2 (snd (getCachedRates now st))))
             = Returned False"
proof -
  let ?st' = "st\<lparr>item_CACHE_KEY := None, item_LAST_UPDATE_KEY := None,
                 item_OFFLINE_STATUS_KEY := None\<rparr>"
  have "expired_snapshot now st"
    using assms by (simp add: expired_snapshot_def expiry_defs)
  then have load: "getCachedRates now st = (Returned None, ?st')"
    using assms(2) by (simp add: getCachedRates_expired clearCache_purges)
  have "item_LAST_UPDATE_KEY ?st' = None"
    by simp
  then have "getCachedRates later1 ?st' = (Returned None, ?st')"
    by (rule getCachedRates_no_stamp)
  moreover have "\<not> throws ?st' GetItem LAST_UPDATE_KEY"
    using assms(1) by (simp add: reads_succeed_def)
  ultimately have "map_outcome hasCache (fst (getCacheInfo later1 later2 ?st')) = Returned False"
    by (simp add: getCacheInfo_hasCache)
  with load show ?thesis by simp
qed

text \<open>
  The table saved at time 0, with the offline flag set, read one millisecond after the
  24 hours have passed: all three entries are gone.
\<close>

theorem getCachedRates_expired_purges_witness:
  "reads_succeed flagged_storage \<and> removals_succeed flagged_storage
   \<and> item_CACHE_KEY flagged_storage = Some (Parsed usd_snapshot)
   \<and> item_LAST_UPDATE_KEY flagged_storage = Some (Digits 0)
   \<and> item_OFFLINE_STATUS_KEY flagged_storage = Some ''true''
   \<and> (86400001 :: int) - 0 > 24 * 60 * 60 * 1000
   \<and> getCachedRates 86400001 flagged_storage = (Returned None, empty_storage)
   \<and> map_outcome hasCache (fst (getCacheInfo 86400002 86400003 empty_storage)) = Returned False"
proof -
  have a: "reads_succeed flagged_storage" and b: "removals_succeed flagged_storage"
    and c: "item_CACHE_KEY flagged_storage = Some (Parsed usd_snapshot)"
    and d: "item_LAST_UPDATE_KEY flagged_storage = Some (Digits 0)"
    and f: "item_OFFLINE_STATUS_KEY flagged_storage = Some ''true''"
    by (simp_all add: flagged_storage_eq reads_succeed_def removals_succeed_def no_faults_def)
  have e: "(86400001 :: int) - 0 > 24 * 60 * 60 * 1000"
    by simp
  have g: "flagged_storage\<lparr>item_CACHE_KEY := None, item_LAST_UPDATE_KEY := None,
             item_OFFLINE_STATUS_KEY := None\<rparr> = empty_storage"
    by (simp add: flagged_storage_eq empty_storage_def)
  note t = getCachedRates_expired_purges [OF a b c d e, of 86400002 86400003]
  from t have load: "getCachedRates 86400001 flagged_storage = (Returned None, empty_storage)"
    by (simp add: g)
  from t have "map_outcome hasCache (fst (getCacheInfo 86400002 86400003
                 (snd (getCachedRates 86400001 flagged_storage)))) = Returned False"
    by blast
  then have "map_outcome hasCache (fst (getCacheInfo 86400002 86400003 empty_storage))
               = Returned False"
    by (simp add: load)
  with a b c d e f load show ?thesis
    by blast
qed

text \<open>
  C5, as amended. For every storage state in which the stored snapshot text does not
  parse, \<open>getCachedRates\<close> returns \<^verbatim>\<open>null\<close> and leaves the storage as it is: the
  snapshot, the last-update time and the offline flag are not purged.
\<close>

theorem getCachedRates_unparsable_not_purged:
  assumes "item_CACHE_KEY st = Some t" and "JSON_parse t = Thrown SyntaxError"
  shows "getCachedRates now st = (Returned None, st)"
  using assms
  by (auto simp add: getCachedRates_def getCachedRates_try_def getItem_CACHE_KEY_def
      getItem_LAST_UPDATE_KEY_def and_then_def try_catch_def)

theorem getCachedRates_unparsable_not_purged_witness:
  "item_CACHE_KEY corrupt_storage = Some Unparsable
   \<and> JSON_parse Unparsable = Thrown SyntaxError
   \<and> getCachedRates 1000 corrupt_storage = (Returned None, corrupt_storage)"
proof -
  have a: "item_CACHE_KEY corrupt_storage = Some Unparsable"
    by (simp add: corrupt_storage_eq)
  have b: "JSON_parse Unparsable = Thrown SyntaxError"
    by (simp add: JSON_parse_def)
  show ?thesis
    using a b getCachedRates_unparsable_not_purged [OF a b, of 1000] by simp
qed

text \<open>
  C5 as stated fails: with a snapshot text that does not parse, a last-update time of 0
  and the offline flag set, \<open>getCachedRates\<close> returns \<^verbatim>\<open>null\<close> and all three
  entries are still there afterwards, even more than 24 hours later.
\<close>

theorem getCachedRates_unparsable_counterexample:
  "item_CACHE_KEY corrupt_storage = Some Unparsable
   \<and> fst (getCachedRates 90000000 corrupt_storage) = Returned None
   \<and> item_CACHE_KEY (snd (getCachedRates 90000000 corrupt_storage)) = Some Unparsable
   \<and> item_LAST_UPDATE_KEY (snd (getCachedRates 90000000 corrupt_storage)) = Some (Digits 0)
   \<and> item_OFFLINE_STATUS_KEY (snd (getCachedRates 90000000 corrupt_storage)) = Some ''true''"
  by (simp add: corrupt_storage_eq getCachedRates_def getCachedRates_try_def storage_defs
      JSON_parse_def expiry_defs no_faults_def)

text \<open>
  C3, as amended. \<open>getCacheInfo\<close> has exactly the effect of \<open>getCachedRates\<close> on the
  storage: it leaves the snapshot, the last-update time and the offline flag unchanged
  unless the stored snapshot is expired, and then it purges them as \<open>clearCache\<close>
  does. Where its read of the last-update entry succeeds, it reports \<open>isExpired\<close> when
  \<open>getCachedRates\<close> returned nothing, and otherwise by the same comparison of the
  last-update entry with the clock.
\<close>

theorem getCacheInfo_storage_effect:
  "snd (getCacheInfo now1 now2 st) = snd (getCachedRates now1 st)
   \<and> (\<not> expired_snapshot now1 st \<longrightarrow> snd (getCacheInfo now1 now2 st) = st)
   \<and> (expired_snapshot now1 st \<longrightarrow> snd (getCacheInfo now1 now2 st) = snd (clearCache st))
   \<and> (\<not> throws st GetItem LAST_UPDATE_KEY \<longrightarrow>
        map_outcome isExpired (fst (getCacheInfo now1 now2 st)) =
          Returned (fst (getCachedRates now1 st) = Returned None
                    \<or> age_exceeds now2 (parseInt (item_LAST_UPDATE_KEY st))))"
  by (simp add: getCacheInfo_storage getCachedRates_storage getCacheInfo_isExpired)

theorem getCacheInfo_storage_effect_witness:
  "\<not> expired_snapshot 1000 usd_storage
   \<and> snd (getCacheInfo 1000 1001 usd_storage) = usd_storage
   \<and> expired_snapshot 90000000 flagged_storage
   \<and> snd (getCacheInfo 90000000 90000001 flagged_storage) = snd (clearCache flagged_storage)
   \<and> \<not> throws usd_storage GetItem LAST_UPDATE_KEY
   \<and> map_outcome isExpired (fst (getCacheInfo 1000 1001 usd_storage)) = Returned False"
proof -
  have a: "\<not> expired_snapshot 1000 usd_storage"
    by (simp add: usd_storage_eq expired_snapshot_def expiry_defs)
  have b: "expired_snapshot 90000000 flagged_storage"
    by (simp add: flagged_storage_eq expired_snapshot_def reads_succeed_def expiry_defs
        no_faults_def)
  have c: "\<not> throws usd_storage GetItem LAST_UPDATE_KEY"
    by (simp add: usd_storage_eq no_faults_def)
  have d: "fst (getCachedRates 1000 usd_storage) \<noteq> Returned None"
    by (simp add: getCachedRates_fresh [OF usd_storage_fresh])
  have e: "\<not> age_exceeds 1001 (parseInt (item_LAST_UPDATE_KEY usd_storage))"
    by (simp add: usd_storage_eq expiry_defs)
  note t1 = getCacheInfo_storage_effect [of 1000 1001 usd_storage]
  note t2 = getCacheInfo_storage_effect [of 90000000 90000001 flagged_storage]
  from t1 a have p: "snd (getCacheInfo 1000 1001 usd_storage) = usd_storage"
    by blast
  from t2 b have q: "snd (getCacheInfo 90000000 90000001 flagged_storage)
                      = snd (clearCache flagged_storage)"
    by blast
  from t1 c have "map_outcome isExpired (fst (getCacheInfo 1000 1001 usd_storage)) =
          Returned (fst (getCachedRates 1000 usd_storage) = Returned None
                    \<or> age_exceeds 1001 (parseInt (item_LAST_UPDATE_KEY usd_storage)))"
    by blast
  with d e have r: "map_outcome isExpired (fst (getCacheInfo 1000 1001 usd_storage))
                     = Returned False"
    by simp
  from a b c p q r show ?thesis
    by blast
qed

text \<open>
  C3 as stated fails on an expired snapshot: with the table saved at time 0 and the
  offline flag set, \<open>getCacheInfo\<close> called more than 24 hours later removes all
  three entries.
\<close>

theorem getCacheInfo_purges_counterexample:
  "item_CACHE_KEY flagged_storage = Some (Parsed usd_snapshot)
   \<and> item_LAST_UPDATE_KEY flagged_storage = Some (Digits 0)
   \<and> item_OFFLINE_STATUS_KEY flagged_storage = Some ''true''
   \<and> item_CACHE_KEY (snd (getCacheInfo 90000000 90000000 flagged_storage)) = None
   \<and> item_LAST_UPDATE_KEY (snd (getCacheInfo 90000000 90000000 flagged_storage)) = None
   \<and> item_OFFLINE_STATUS_KEY (snd (getCacheInfo 90000000 90000000 flagged_storage)) = None"
  by (simp add: flagged_storage_eq getCacheInfo_def getCachedRates_def getCachedRates_try_def
      clearCache_def storage_defs JSON_parse_def expiry_defs no_faults_def)

section \<open>Storage failures\<close>

text \<open>
  C6. No operation of the cache should pass a storage error on to its caller. On a storage
  every access to which throws, \<open>getCacheInfo\<close> does: its read of the last-update
  entry stands outside any \<^verbatim>\<open>try\<close>. The other operations return on the same storage,
  as they do on every storage (the lemmas \<open>saveRatesToCache_returns\<close> to
  \<open>getOfflineStatus_returns\<close> above).
\<close>

theorem getCacheInfo_propagates_storage_error:
  "getCacheInfo 0 0 blocked_storage = (Thrown StorageError, blocked_storage)
   \<and> fst (saveRatesToCache usd_rates ''USD'' 0 0 0 blocked_storage) = Returned ()
   \<and> fst (getCachedRates 0 blocked_storage) = Returned None
   \<and> fst (getCachedRate ''USD'' ''INR'' 0 blocked_storage) = Returned None
   \<and> fst (hasRate ''USD'' ''INR'' 0 blocked_storage) = Returned False
   \<and> fst (clearCache blocked_storage) = Returned ()
   \<and> fst (setOfflineStatus True blocked_storage) = Returned ()
   \<and> fst (getOfflineStatus blocked_storage) = Returned False"
  by (simp add: blocked_storage_def empty_storage_def getCacheInfo_def saveRatesToCache_def
      getCachedRates_def getCachedRates_try_def getCachedRate_def hasRate_def clearCache_def
      setOfflineStatus_def getOfflineStatus_def storage_defs)

section \<open>The online and offline modes\<close>

text \<open>
  C8, as amended. \<open>exitOfflineMode\<close> returns \<^verbatim>\<open>undefined\<close> on every call. If the
  hook's connectivity state says connected, the mode becomes Online and, where the write
  to the storage succeeds, the persisted flag becomes \<^verbatim>\<open>'false'\<close>. If it says
  disconnected, the React state and the persisted flag stay as they are, and the refusal
  is written to the console only: nothing tells the caller.
\<close>

theorem exitOfflineMode_effect:
  "fst (exitOfflineMode h) = Returned ()
   \<and> (isOnline h \<longrightarrow> mode_of (snd (exitOfflineMode h)) = Online)
   \<and> (isOnline h \<and> \<not> throws (localStorage h) SetItem OFFLINE_STATUS_KEY \<longrightarrow>
        item_OFFLINE_STATUS_KEY (localStorage (snd (exitOfflineMode h))) = Some ''false'')
   \<and> (\<not> isOnline h \<longrightarrow>
        snd (exitOfflineMode h)
          = h\<lparr>console := console h @ [''Cannot exit offline mode - no network connection'']\<rparr>)"
  by (auto simp add: hook_defs Let_def)

theorem exitOfflineMode_effect_witness:
  "isOnline (disconnected_hook\<lparr>isOnline := True\<rparr>)
   \<and> \<not> throws (localStorage (disconnected_hook\<lparr>isOnline := True\<rparr>)) SetItem OFFLINE_STATUS_KEY
   \<and> mode_of (disconnected_hook\<lparr>isOnline := True\<rparr>) = OfflineManual
   \<and> mode_of (snd (exitOfflineMode (disconnected_hook\<lparr>isOnline := True\<rparr>))) = Online
   \<and> item_OFFLINE_STATUS_KEY
        (localStorage (snd (exitOfflineMode (disconnected_hook\<lparr>isOnline := True\<rparr>))))
        = Some ''false''
   \<and> \<not> isOnline disconnected_hook
   \<and> snd (exitOfflineMode disconnected_hook)
        = disconnected_hook\<lparr>console := console disconnected_hook
            @ [''Cannot exit offline mode - no network connection'']\<rparr>"
proof -
  let ?h = "disconnected_hook\<lparr>isOnline := True\<rparr>"
  have a: "isOnline ?h" by simp
  have b: "\<not> throws (localStorage ?h) SetItem OFFLINE_STATUS_KEY"
    by (simp add: disconnected_hook_eq empty_storage_def no_faults_def)
  have c: "mode_of ?h = OfflineManual"
    by (simp add: disconnected_hook_eq mode_of_def)
  have d: "\<not> isOnline disconnected_hook"
    by (simp add: disconnected_hook_eq)
  note t1 = exitOfflineMode_effect [of ?h]
  note t2 = exitOfflineMode_effect [of disconnected_hook]
  from t1 a have p: "mode_of (snd (exitOfflineMode ?h)) = Online"
    by blast
  from t1 a b have q: "item_OFFLINE_STATUS_KEY (localStorage (snd (exitOfflineMode ?h)))
                        = Some ''false''"
    by blast
  from t2 d have r: "snd (exitOfflineMode disconnected_hook)
        = disconnected_hook\<lparr>console := console disconnected_hook
            @ [''Cannot exit offline mode - no network connection'']\<rparr>"
    by blast
  from a b c d p q r show ?thesis
    by blast
qed

text \<open>
  C8 as stated fails in its last part: the call that is refused, the network being down,
  returns the same value as the call that is applied, so the caller is not told.
\<close>

theorem exitOfflineMode_rejection_counterexample:
  "\<not> isOnline disconnected_hook
   \<and> isOfflineMode (snd (exitOfflineMode disconnected_hook))
   \<and> \<not> isOfflineMode (snd (exitOfflineMode (disconnected_hook\<lparr>isOnline := True\<rparr>)))
   \<and> fst (exitOfflineMode disconnected_hook) = Returned ()
   \<and> fst (exitOfflineMode disconnected_hook)
       = fst (exitOfflineMode (disconnected_hook\<lparr>isOnline := True\<rparr>))"
  by (simp add: disconnected_hook_eq hook_defs empty_storage_def no_faults_def)

text \<open>
  C2. After a loss of the network while Online, and then its return with no user action
  between, the mode should be Online again and the persisted flag false. The handlers do
  otherwise: \<open>handleOffline\<close> persists the flag, \<open>handleOnline\<close> reads it back as set
  and leaves offline mode on, and the flag stays \<^verbatim>\<open>'true'\<close>.
\<close>

theorem handleOnline_after_handleOffline_stays_offline:
  "mode_of online_hook = Online
   \<and> disconnected_hook = snd (handleOffline online_hook)
   \<and> mode_of disconnected_hook = OfflineAuto
   \<and> item_OFFLINE_STATUS_KEY (localStorage disconnected_hook) = Some ''true''
   \<and> fst (handleOnline disconnected_hook) = Returned ()
   \<and> isOnline (snd (handleOnline disconnected_hook))
   \<and> isOfflineMode (snd (handleOnline disconnected_hook))
   \<and> mode_of (snd (handleOnline disconnected_hook)) \<noteq> Online
   \<and> item_OFFLINE_STATUS_KEY (localStorage (snd (handleOnline disconnected_hook))) = Some ''true''"
proof -
  have a: "disconnected_hook = snd (handleOffline online_hook)"
    by (simp add: disconnected_hook_def)
  have b: "mode_of online_hook = Online"
    by (simp add: online_hook_def mode_of_def)
  have c: "mode_of disconnected_hook = OfflineAuto
           \<and> item_OFFLINE_STATUS_KEY (localStorage disconnected_hook) = Some ''true''"
    by (simp add: disconnected_hook_eq mode_of_def)
  have d: "handleOnline disconnected_hook =
             (Returned (),
              disconnected_hook\<lparr>isOnline := True,
                console := console disconnected_hook @ [''Network connection restored'']\<rparr>)"
    by (simp add: disconnected_hook_eq hook_defs empty_storage_def no_faults_def Let_def)
  have e: "fst (handleOnline disconnected_hook) = Returned ()
           \<and> isOnline (snd (handleOnline disconnected_hook))
           \<and> isOfflineMode (snd (handleOnline disconnected_hook))
           \<and> mode_of (snd (handleOnline disconnected_hook)) \<noteq> Online
           \<and> item_OFFLINE_STATUS_KEY (localStorage (snd (handleOnline disconnected_hook)))
               = Some ''true''"
    unfolding d by (simp add: disconnected_hook_eq mode_of_def)
  from a b c e show ?thesis
    by blast
qed

end
